theory Spec2Isabelle
  imports Main
begin

section \<open>The world of verify_background_picker.py\<close>

text \<open>
  The script is glue over Playwright's synchronous API: every line of \<open>run\<close> is either a
  library call or a \<open>print\<close>. The model therefore has three layers:
  \<^item> the state the script can change (standard output, the file system, the browser
    process, and a log of the library calls it made, with their arguments);
  \<^item> the environment: what the browser and the application under test answer to each
    call, which the script does not control;
  \<^item> the script itself, translated line by line.
\<close>

text \<open>Exceptions that can leave a library call.\<close>

datatype error = AssertionError | TimeoutError | PlaywrightError

text \<open>
  \<open>page.locator("button", has_text=...)\<close> and \<open>page.get_by_text(...)\<close> only build
  descriptors; they do not touch the page.
\<close>

datatype locator = Locator string string | GetByText string

type_synonym image = string

text \<open>
  One entry per library call, with the arguments the script passed. Keyword arguments the
  script may leave out are options: \<open>Screenshot path full_page\<close>. Timeouts are in
  milliseconds, as in Playwright.
\<close>

datatype call =
    Start
  | Launch bool "string list"
  | NewPage
  | Goto string
  | ExpectEnabled locator nat
  | IsVisible locator
  | Screenshot "string option" "bool option"
  | Close
  | Stop

record world =
  argv :: "string list"
  stdout :: "string list"
  files :: "string \<rightharpoonup> image"
  browser_alive :: bool
  calls :: "call list"

text \<open>
  The environment. Each field answers one kind of call: \<open>None\<close> or \<open>Inr\<close> when the call
  returns, \<open>Some e\<close> or \<open>Inl e\<close> when it raises \<open>e\<close>. \<open>enabled_within l t\<close> says whether
  the element of locator \<open>l\<close> becomes enabled within \<open>t\<close> milliseconds; \<open>capture fp\<close> is
  the image of the whole scrollable page when \<open>fp\<close> holds and of the viewport otherwise.
\<close>

record env =
  start_res :: "error option"
  launch_res :: "bool \<Rightarrow> string list \<Rightarrow> error option"
  new_page_res :: "error option"
  goto_res :: "string \<Rightarrow> error option"
  enabled_within :: "locator \<Rightarrow> nat \<Rightarrow> bool"
  visible_res :: "locator \<Rightarrow> error + bool"
  capture :: "bool \<Rightarrow> error + image"
  close_res :: "error option"

subsection \<open>Computations that change the world and may raise\<close>

type_synonym 'a py = "world \<Rightarrow> (error + 'a) \<times> world"

definition ret :: "'a \<Rightarrow> 'a py" where
  "ret x = (\<lambda>w. (Inr x, w))"

definition raise :: "error \<Rightarrow> 'a py" where
  "raise e = (\<lambda>w. (Inl e, w))"

text \<open>Sequencing: an exception skips the rest.\<close>

definition py_bind :: "'a py \<Rightarrow> ('a \<Rightarrow> 'b py) \<Rightarrow> 'b py" where
  "py_bind m f = (\<lambda>w. case m w of (Inl e, w') \<Rightarrow> (Inl e, w') | (Inr x, w') \<Rightarrow> f x w')"

definition log :: "call \<Rightarrow> unit py" where
  "log c = (\<lambda>w. (Inr (), w\<lparr>calls := calls w @ [c]\<rparr>))"

definition raise_if :: "error option \<Rightarrow> unit py" where
  "raise_if r = (case r of Some e \<Rightarrow> raise e | None \<Rightarrow> ret ())"

definition set_browser :: "bool \<Rightarrow> unit py" where
  "set_browser b = (\<lambda>w. (Inr (), w\<lparr>browser_alive := b\<rparr>))"

definition write_file :: "string \<Rightarrow> image \<Rightarrow> unit py" where
  "write_file p img = (\<lambda>w. (Inr (), w\<lparr>files := (files w)(p \<mapsto> img)\<rparr>))"

subsection \<open>The library calls the script makes\<close>

text \<open>
  These follow Playwright's documented behaviour, as far as \<open>run\<close> relies on it:
  \<^item> \<open>launch\<close> starts a browser process; \<open>close\<close> ends it;
  \<^item> an \<open>expect(...)\<close> assertion that is not met within its timeout raises
    \<open>AssertionError\<close>;
  \<^item> \<open>screenshot\<close> captures the viewport unless \<open>full_page\<close> is passed as true, and
    writes the image to \<open>path\<close> when one is given, replacing what is there;
  \<^item> leaving the \<open>with sync_playwright()\<close> block stops the Playwright driver, which
    shuts down every browser it launched; the block does not swallow exceptions.
\<close>

definition sync_playwright_enter :: "env \<Rightarrow> unit py" where
  "sync_playwright_enter env = py_bind (log Start) (\<lambda>_. raise_if (start_res env))"

definition sync_playwright_exit :: "unit py" where
  "sync_playwright_exit = py_bind (log Stop) (\<lambda>_. set_browser False)"

definition launch :: "env \<Rightarrow> bool \<Rightarrow> string list \<Rightarrow> unit py" where
  "launch env headless args =
     py_bind (log (Launch headless args)) (\<lambda>_.
     py_bind (raise_if (launch_res env headless args)) (\<lambda>_.
     set_browser True))"

definition new_page :: "env \<Rightarrow> unit py" where
  "new_page env = py_bind (log NewPage) (\<lambda>_. raise_if (new_page_res env))"

definition goto :: "env \<Rightarrow> string \<Rightarrow> unit py" where
  "goto env url = py_bind (log (Goto url)) (\<lambda>_. raise_if (goto_res env url))"

definition to_be_enabled :: "env \<Rightarrow> locator \<Rightarrow> nat \<Rightarrow> unit py" where
  "to_be_enabled env l timeout =
     py_bind (log (ExpectEnabled l timeout)) (\<lambda>_.
     if enabled_within env l timeout then ret () else raise AssertionError)"

definition is_visible :: "env \<Rightarrow> locator \<Rightarrow> bool py" where
  "is_visible env l =
     py_bind (log (IsVisible l)) (\<lambda>_.
     case visible_res env l of Inl e \<Rightarrow> raise e | Inr b \<Rightarrow> ret b)"

definition screenshot :: "env \<Rightarrow> string option \<Rightarrow> bool option \<Rightarrow> unit py" where
  "screenshot env path full_page =
     py_bind (log (Screenshot path full_page)) (\<lambda>_.
     case capture env (case full_page of None \<Rightarrow> False | Some b \<Rightarrow> b) of
       Inl e \<Rightarrow> raise e
     | Inr img \<Rightarrow> (case path of None \<Rightarrow> ret () | Some p \<Rightarrow> write_file p img))"

definition close :: "env \<Rightarrow> unit py" where
  "close env =
     py_bind (log Close) (\<lambda>_.
     py_bind (raise_if (close_res env)) (\<lambda>_.
     set_browser False))"

definition print :: "string \<Rightarrow> unit py" where
  "print s = (\<lambda>w. (Inr (), w\<lparr>stdout := stdout w @ [s]\<rparr>))"

text \<open>
  The \<open>with\<close> statement: if entering raises, the body and the exit are skipped; otherwise
  the exit runs after the body whether the body returned or raised, and the body's result
  (value or exception) is the result of the block.
\<close>

definition with_sync_playwright :: "env \<Rightarrow> 'a py \<Rightarrow> 'a py" where
  "with_sync_playwright env body =
     (\<lambda>w. case sync_playwright_enter env w of
             (Inl e, w1) \<Rightarrow> (Inl e, w1)
           | (Inr _, w1) \<Rightarrow> (case body w1 of (r, w2) \<Rightarrow> (r, snd (sync_playwright_exit w2))))"

section \<open>The script\<close>

definition run :: "env \<Rightarrow> unit py" where
  "run env =
     with_sync_playwright env (
       py_bind (launch env True
                  [''--use-fake-ui-for-media-stream'',
                   ''--use-fake-device-for-media-stream'']) (\<lambda>browser.
       py_bind (new_page env) (\<lambda>page.
       py_bind (goto env ''http://localhost:5173/'') (\<lambda>_.
       py_bind (to_be_enabled env (Locator ''button'' ''Start Recording'') 20000) (\<lambda>_.
       py_bind (is_visible env (GetByText ''Choose Background'')) (\<lambda>visible.
       py_bind (if visible
                then print ''FAIL: Background picker found on start screen''
                else print ''PASS: Background picker not on start screen'') (\<lambda>_.
       py_bind (screenshot env (Some ''verification/verification.png'') None) (\<lambda>_.
       py_bind (print ''Screenshot saved.'') (\<lambda>_.
       close env)))))))))"

text \<open>
  The module's top level: \<open>run()\<close> is called only when the module's \<open>__name__\<close> is
  \<open>"__main__"\<close>. The interpreter exits with status 1 when an exception reaches the top
  level and with status 0 otherwise.
\<close>

definition module_body :: "string \<Rightarrow> env \<Rightarrow> unit py" where
  "module_body name env = (if name = ''__main__'' then run env else ret ())"

definition exit_status :: "error + unit \<Rightarrow> nat" where
  "exit_status r = (case r of Inl _ \<Rightarrow> 1 | Inr _ \<Rightarrow> 0)"

definition script :: "env \<Rightarrow> world \<Rightarrow> nat \<times> world" where
  "script env w = (case module_body ''__main__'' env w of (r, w') \<Rightarrow> (exit_status r, w'))"

text \<open>What one execution added to standard output and to the call log.\<close>

definition printed :: "world \<Rightarrow> world \<Rightarrow> string list" where
  "printed w w' = drop (length (stdout w)) (stdout w')"

definition new_calls :: "world \<Rightarrow> world \<Rightarrow> call list" where
  "new_calls w w' = drop (length (calls w)) (calls w')"


subsection \<open>The constants of the script\<close>

abbreviation fake_media_flags :: "string list" where
  "fake_media_flags \<equiv>
     [''--use-fake-ui-for-media-stream'', ''--use-fake-device-for-media-stream'']"

abbreviation target_url :: string where
  "target_url \<equiv> ''http://localhost:5173/''"

abbreviation start_btn :: locator where
  "start_btn \<equiv> Locator ''button'' ''Start Recording''"

abbreviation picker_text :: locator where
  "picker_text \<equiv> GetByText ''Choose Background''"

abbreviation shot_path :: string where
  "shot_path \<equiv> ''verification/verification.png''"

abbreviation fail_line :: string where
  "fail_line \<equiv> ''FAIL: Background picker found on start screen''"

abbreviation pass_line :: string where
  "pass_line \<equiv> ''PASS: Background picker not on start screen''"

abbreviation saved_line :: string where
  "saved_line \<equiv> ''Screenshot saved.''"

subsection \<open>Reading the call log\<close>

fun launches :: "call list \<Rightarrow> (bool \<times> string list) list" where
  "launches [] = []"
| "launches (Launch h a # cs) = (h, a) # launches cs"
| "launches (_ # cs) = launches cs"

fun navigations :: "call list \<Rightarrow> string list" where
  "navigations [] = []"
| "navigations (Goto u # cs) = u # navigations cs"
| "navigations (_ # cs) = navigations cs"

fun readiness_waits :: "call list \<Rightarrow> (locator \<times> nat) list" where
  "readiness_waits [] = []"
| "readiness_waits (ExpectEnabled l t # cs) = (l, t) # readiness_waits cs"
| "readiness_waits (_ # cs) = readiness_waits cs"

fun visibility_checks :: "call list \<Rightarrow> locator list" where
  "visibility_checks [] = []"
| "visibility_checks (IsVisible l # cs) = l # visibility_checks cs"
| "visibility_checks (_ # cs) = visibility_checks cs"

fun screenshots :: "call list \<Rightarrow> (string option \<times> bool option) list" where
  "screenshots [] = []"
| "screenshots (Screenshot p fp # cs) = (p, fp) # screenshots cs"
| "screenshots (_ # cs) = screenshots cs"

subsection \<open>Paths through the script\<close>

text \<open>
  \<open>wait_reached\<close>: every call before the readiness wait returns, so the wait is made.
  \<open>wait_succeeds\<close>: moreover the button becomes enabled within the 20000 ms the script
  allows, so control reaches the visibility check.
\<close>

definition wait_reached :: "env \<Rightarrow> bool" where
  "wait_reached env \<longleftrightarrow>
     start_res env = None \<and> launch_res env True fake_media_flags = None \<and>
     new_page_res env = None \<and> goto_res env target_url = None"

definition wait_succeeds :: "env \<Rightarrow> bool" where
  "wait_succeeds env \<longleftrightarrow> wait_reached env \<and> enabled_within env start_btn 20000"

subsection \<open>A mock application and an initial world\<close>

text \<open>
  \<open>app ready_at picker\<close> is an application under test served at the target URL whose
  "Start Recording" button becomes enabled \<open>ready_at\<close> milliseconds after navigation
  (never, for \<open>None\<close>) and which shows the "Choose Background" text iff \<open>picker\<close> holds.
  Its page is longer than the viewport, so the two kinds of screenshot differ.
\<close>

definition app :: "nat option \<Rightarrow> bool \<Rightarrow> env" where
  "app ready_at picker =
     \<lparr>start_res = None,
      launch_res = (\<lambda>h a. None),
      new_page_res = None,
      goto_res = (\<lambda>u. if u = target_url then None else Some PlaywrightError),
      enabled_within = (\<lambda>l t. l = start_btn \<and>
                          (case ready_at of None \<Rightarrow> False | Some t0 \<Rightarrow> t0 \<le> t)),
      visible_res = (\<lambda>l. Inr (l = picker_text \<and> picker)),
      capture = (\<lambda>fp. Inr (if fp then ''full page'' else ''viewport'')),
      close_res = None\<rparr>"

definition w0 :: world where
  "w0 = \<lparr>argv = [''verify_background_picker.py''],
         stdout = [],
         files = [shot_path \<mapsto> ''old image''],
         browser_alive = False,
         calls = []\<rparr>"

section \<open>Properties\<close>

lemmas py_defs = ret_def raise_def py_bind_def log_def raise_if_def set_browser_def
  write_file_def sync_playwright_enter_def sync_playwright_exit_def launch_def
  new_page_def goto_def to_be_enabled_def is_visible_def screenshot_def close_def
  print_def with_sync_playwright_def

subsection \<open>The script, path by path\<close>

text \<open>
  When the readiness wait succeeds and the visibility check returns \<open>b\<close>, the rest of
  the run is decided by the screenshot and by \<open>browser.close()\<close>.
\<close>

lemma run_past_wait:
  assumes "wait_succeeds env" and "visible_res env picker_text = Inr b"
  shows "run env w =
    (case capture env False of
       Inl e \<Rightarrow>
         (Inl e,
          w\<lparr>stdout := stdout w @ [if b then fail_line else pass_line],
            browser_alive := False,
            calls := calls w @ [Start, Launch True fake_media_flags, NewPage, Goto target_url,
                       ExpectEnabled start_btn 20000, IsVisible picker_text,
                       Screenshot (Some shot_path) None, Stop]\<rparr>)
     | Inr img \<Rightarrow>
         (case close_res env of Some e \<Rightarrow> Inl e | None \<Rightarrow> Inr (),
          w\<lparr>stdout := stdout w @ [if b then fail_line else pass_line, saved_line],
            files := (files w)(shot_path \<mapsto> img),
            browser_alive := False,
            calls := calls w @ [Start, Launch True fake_media_flags, NewPage, Goto target_url,
                       ExpectEnabled start_btn 20000, IsVisible picker_text,
                       Screenshot (Some shot_path) None, Close, Stop]\<rparr>))"
  using assms
  by (auto simp: run_def py_defs wait_succeeds_def wait_reached_def
           split: option.splits sum.splits)

text \<open>The paths on which a call before the readiness wait raises.\<close>

lemma run_start_fails:
  assumes "start_res env = Some e"
  shows "run env w = (Inl e, w\<lparr>calls := calls w @ [Start]\<rparr>)"
  using assms by (simp add: run_def py_defs)

lemma run_launch_fails:
  assumes "start_res env = None" and "launch_res env True fake_media_flags = Some e"
  shows "run env w =
    (Inl e, w\<lparr>browser_alive := False,
              calls := calls w @ [Start, Launch True fake_media_flags, Stop]\<rparr>)"
  using assms by (simp add: run_def py_defs)

lemma run_new_page_fails:
  assumes "start_res env = None" and "launch_res env True fake_media_flags = None"
    and "new_page_res env = Some e"
  shows "run env w =
    (Inl e, w\<lparr>browser_alive := False,
              calls := calls w @ [Start, Launch True fake_media_flags, NewPage, Stop]\<rparr>)"
  using assms by (simp add: run_def py_defs)

lemma run_goto_fails:
  assumes "start_res env = None" and "launch_res env True fake_media_flags = None"
    and "new_page_res env = None" and "goto_res env target_url = Some e"
  shows "run env w =
    (Inl e, w\<lparr>browser_alive := False,
              calls := calls w @ [Start, Launch True fake_media_flags, NewPage,
                         Goto target_url, Stop]\<rparr>)"
  using assms by (simp add: run_def py_defs)

text \<open>When the wait is reached and the button does not become enabled in time.\<close>

lemma run_wait_fails:
  assumes "wait_reached env" and "\<not> enabled_within env start_btn 20000"
  shows "run env w =
    (Inl AssertionError,
     w\<lparr>browser_alive := False,
       calls := calls w @ [Start, Launch True fake_media_flags, NewPage, Goto target_url,
                  ExpectEnabled start_btn 20000, Stop]\<rparr>)"
  using assms
  by (auto simp: run_def py_defs wait_reached_def split: option.splits sum.splits)

text \<open>When the visibility check itself raises.\<close>

lemma run_visible_raises:
  assumes "wait_succeeds env" and "visible_res env picker_text = Inl e"
  shows "run env w =
    (Inl e, w\<lparr>browser_alive := False,
              calls := calls w @ [Start, Launch True fake_media_flags, NewPage,
                         Goto target_url, ExpectEnabled start_btn 20000,
                         IsVisible picker_text, Stop]\<rparr>)"
  using assms by (simp add: run_def py_defs wait_succeeds_def wait_reached_def)

text \<open>Nothing in \<open>run\<close> reads the command line.\<close>

lemma run_argv:
  "run env (w\<lparr>argv := a\<rparr>) = (fst (run env w), (snd (run env w))\<lparr>argv := a\<rparr>)"
  by (auto simp: run_def py_defs split: option.splits sum.splits prod.splits if_splits)

subsection \<open>The screenshot\<close>

text \<open>
  C1 (as amended). In every run that gets past the readiness wait and the visibility
  check, \<open>run\<close> asks for one screenshot, passing only the path
  \<open>verification/verification.png\<close>: no \<open>full_page\<close> argument, so the capture is
  Playwright's default, the viewport. When the capture succeeds its image becomes the
  content of that path, whatever was there before, and no other file changes.
\<close>

theorem run_screenshot_persisted:
  assumes "wait_succeeds env" and "visible_res env picker_text = Inr b"
    and "capture env False = Inr img"
  shows "files (snd (run env w)) = (files w)(shot_path \<mapsto> img) \<and>
         screenshots (new_calls w (snd (run env w))) = [(Some shot_path, None)]"
  by (simp add: run_past_wait [OF assms(1,2)] assms(3) new_calls_def)

theorem run_screenshot_persisted_witness:
  "wait_succeeds (app (Some 3000) True) \<and>
   visible_res (app (Some 3000) True) picker_text = Inr True \<and>
   capture (app (Some 3000) True) False = Inr ''viewport'' \<and>
   files w0 shot_path = Some ''old image'' \<and>
   files (snd (run (app (Some 3000) True) w0)) = (files w0)(shot_path \<mapsto> ''viewport'') \<and>
   screenshots (new_calls w0 (snd (run (app (Some 3000) True) w0))) = [(Some shot_path, None)]"
proof -
  have h1: "wait_succeeds (app (Some 3000) True)"
    by (simp add: wait_succeeds_def wait_reached_def app_def)
  have h2: "visible_res (app (Some 3000) True) picker_text = Inr True"
    by (simp add: app_def)
  have h3: "capture (app (Some 3000) True) False = Inr ''viewport''"
    by (simp add: app_def)
  have h4: "files w0 shot_path = Some ''old image''"
    by (simp add: w0_def)
  show ?thesis
    using h1 h2 h3 h4 run_screenshot_persisted [OF h1 h2 h3, of w0] by simp
qed

text \<open>
  C1 as stated asks for a full-page screenshot. On the mock application, whose page is
  longer than the viewport, the run succeeds and the file holds the viewport image, not
  the full-page one; the only screenshot call carries no \<open>full_page\<close> argument.
\<close>

theorem run_full_page_counterexample:
  "wait_succeeds (app (Some 3000) False) \<and>
   capture (app (Some 3000) False) True = Inr ''full page'' \<and>
   files (snd (run (app (Some 3000) False) w0)) shot_path = Some ''viewport'' \<and>
   files (snd (run (app (Some 3000) False) w0)) shot_path \<noteq> Some ''full page'' \<and>
   screenshots (calls (snd (run (app (Some 3000) False) w0))) = [(Some shot_path, None)]"
  by (simp add: run_def py_defs app_def w0_def wait_succeeds_def wait_reached_def)

subsection \<open>Releasing the browser\<close>

text \<open>
  C2. On every exit path of \<open>run\<close> (normal completion, the FAIL case, an exception from
  the readiness wait or from any other call) no browser process is alive when control
  leaves \<open>run\<close>, provided none was alive before. Whenever the Playwright session was
  entered, the last thing \<open>run\<close> does is leave it, which stops the driver and the
  browser with it; this is what ends the browser on the paths that never reach
  \<open>browser.close()\<close>.
\<close>

theorem run_closes_browser:
  "\<not> browser_alive w \<Longrightarrow>
   \<not> browser_alive (snd (run env w)) \<and>
   (start_res env = None \<longrightarrow> last (calls (snd (run env w))) = Stop)"
  by (auto simp: run_def py_defs split: option.splits sum.splits prod.splits if_splits)

theorem run_closes_browser_witness:
  "\<not> browser_alive w0 \<and>
   \<not> enabled_within (app None False) start_btn 20000 \<and>
   \<not> browser_alive (snd (run (app None False) w0)) \<and>
   start_res (app None False) = None \<and>
   last (calls (snd (run (app None False) w0))) = Stop"
proof -
  have h: "\<not> browser_alive w0"
    by (simp add: w0_def)
  have t: "\<not> enabled_within (app None False) start_btn 20000"
    by (simp add: app_def)
  have s: "start_res (app None False) = None"
    by (simp add: app_def)
  show ?thesis
    using h t s run_closes_browser [OF h, of "app None False"] by simp
qed

subsection \<open>The visibility check\<close>

text \<open>
  C3 (as amended). In every run in which the readiness wait succeeds and the
  \<open>is_visible()\<close> call returns an answer \<open>b\<close>, the "Choose Background" text is
  checked exactly once; the first line printed is the FAIL line when \<open>b\<close> holds and
  the PASS line otherwise, followed only by the screenshot confirmation if the screenshot
  succeeds; and neither answer raises: whether the run returns or raises is decided by
  the screenshot and the close that follow, in the same way for both values of \<open>b\<close>.
  Nothing is promised when the call itself raises.
\<close>

theorem run_visibility_check:
  assumes "wait_succeeds env" and "visible_res env picker_text = Inr b"
  shows "visibility_checks (new_calls w (snd (run env w))) = [picker_text] \<and>
         printed w (snd (run env w)) =
           (if b then fail_line else pass_line) #
           (case capture env False of Inl e \<Rightarrow> [] | Inr img \<Rightarrow> [saved_line]) \<and>
         fst (run env w) =
           (case capture env False of
              Inl e \<Rightarrow> Inl e
            | Inr img \<Rightarrow> (case close_res env of Some e \<Rightarrow> Inl e | None \<Rightarrow> Inr ()))"
  by (simp add: run_past_wait [OF assms] new_calls_def printed_def split: sum.splits)

theorem run_visibility_check_witness:
  "wait_succeeds (app (Some 0) False) \<and>
   visible_res (app (Some 0) False) picker_text = Inr False \<and>
   capture (app (Some 0) False) False = Inr ''viewport'' \<and>
   close_res (app (Some 0) False) = None \<and>
   visibility_checks (new_calls w0 (snd (run (app (Some 0) False) w0))) = [picker_text] \<and>
   printed w0 (snd (run (app (Some 0) False) w0)) = [pass_line, saved_line] \<and>
   fst (run (app (Some 0) False) w0) = Inr ()"
proof -
  have h1: "wait_succeeds (app (Some 0) False)"
    by (simp add: wait_succeeds_def wait_reached_def app_def)
  have h2: "visible_res (app (Some 0) False) picker_text = Inr False"
    by (simp add: app_def)
  have h3: "capture (app (Some 0) False) False = Inr ''viewport''"
    by (simp add: app_def)
  have h4: "close_res (app (Some 0) False) = None"
    by (simp add: app_def)
  show ?thesis
    using h1 h2 h3 h4 run_visibility_check [OF h1 h2, of w0] by simp
qed

text \<open>
  C3 as stated has the check never raise in any run whose readiness wait succeeds. The
  \<open>is_visible()\<close> call is a library call like the others and can raise (Playwright's
  locators are strict: a text that matches several elements is an error). On such a
  page the wait succeeds, the check is made once, and its exception leaves \<open>run\<close>:
  neither the PASS nor the FAIL line is printed, no screenshot is written, and the exit
  status is 1.
\<close>

theorem run_visibility_check_counterexample:
  "wait_succeeds (app (Some 3000) True\<lparr>visible_res := \<lambda>l. Inl PlaywrightError\<rparr>) \<and>
   fst (run (app (Some 3000) True\<lparr>visible_res := \<lambda>l. Inl PlaywrightError\<rparr>) w0) =
     Inl PlaywrightError \<and>
   visibility_checks
     (calls (snd (run (app (Some 3000) True\<lparr>visible_res := \<lambda>l. Inl PlaywrightError\<rparr>) w0))) =
     [picker_text] \<and>
   stdout (snd (run (app (Some 3000) True\<lparr>visible_res := \<lambda>l. Inl PlaywrightError\<rparr>) w0)) = [] \<and>
   files (snd (run (app (Some 3000) True\<lparr>visible_res := \<lambda>l. Inl PlaywrightError\<rparr>) w0)) =
     files w0 \<and>
   fst (script (app (Some 3000) True\<lparr>visible_res := \<lambda>l. Inl PlaywrightError\<rparr>) w0) = 1"
  by (simp add: run_def py_defs app_def w0_def wait_succeeds_def wait_reached_def
        script_def module_body_def exit_status_def)

subsection \<open>The readiness wait\<close>

text \<open>
  C4 (as amended). \<open>run\<close> waits once for the "Start Recording" button to become
  enabled, with a timeout of 20000 ms. If the button is not enabled within that bound,
  the expectation fails with an \<open>AssertionError\<close>, which nothing in the script catches
  or retries: it leaves \<open>run\<close>, and the process exits with status 1.
\<close>

theorem run_readiness_timeout:
  assumes "wait_reached env" and "\<not> enabled_within env start_btn 20000"
  shows "fst (run env w) = Inl AssertionError \<and>
         readiness_waits (new_calls w (snd (run env w))) = [(start_btn, 20000)] \<and>
         fst (script env w) = 1"
  by (simp add: run_wait_fails [OF assms] new_calls_def script_def module_body_def
        exit_status_def)

theorem run_readiness_timeout_witness:
  "wait_reached (app (Some 20001) False) \<and>
   \<not> enabled_within (app (Some 20001) False) start_btn 20000 \<and>
   fst (run (app (Some 20001) False) w0) = Inl AssertionError \<and>
   readiness_waits (new_calls w0 (snd (run (app (Some 20001) False) w0))) =
     [(start_btn, 20000)] \<and>
   fst (script (app (Some 20001) False) w0) = 1"
proof -
  have h1: "wait_reached (app (Some 20001) False)"
    by (simp add: wait_reached_def app_def)
  have h2: "\<not> enabled_within (app (Some 20001) False) start_btn 20000"
    by (simp add: app_def)
  show ?thesis
    using h1 h2 run_readiness_timeout [OF h1 h2, of w0] by simp
qed

text \<open>
  C4 as stated names the exception \<open>TimeoutError\<close>. On an application whose button is
  never enabled, what leaves \<open>run\<close> is an \<open>AssertionError\<close>.
\<close>

theorem run_timeout_error_counterexample:
  "wait_reached (app None False) \<and>
   \<not> enabled_within (app None False) start_btn 20000 \<and>
   fst (run (app None False) w0) = Inl AssertionError \<and>
   fst (run (app None False) w0) \<noteq> Inl TimeoutError"
  by (simp add: run_def py_defs app_def w0_def wait_reached_def)

text \<open>
  C5. If the button does not become enabled within the timeout, \<open>run\<close> raises and has
  none of its later effects: standard output is what it was (no PASS, FAIL or
  "Screenshot saved." line) and the file system is what it was (no screenshot written or
  replaced).
\<close>

theorem run_timeout_no_effects:
  "\<not> enabled_within env start_btn 20000 \<Longrightarrow>
   stdout (snd (run env w)) = stdout w \<and>
   files (snd (run env w)) = files w \<and>
   isl (fst (run env w))"
  by (auto simp: run_def py_defs split: option.splits sum.splits prod.splits if_splits)

theorem run_timeout_no_effects_witness:
  "\<not> enabled_within (app None True) start_btn 20000 \<and>
   stdout (snd (run (app None True) w0)) = stdout w0 \<and>
   files (snd (run (app None True) w0)) = files w0 \<and>
   isl (fst (run (app None True) w0))"
proof -
  have h: "\<not> enabled_within (app None True) start_btn 20000"
    by (simp add: app_def)
  show ?thesis
    using h run_timeout_no_effects [OF h, of w0] by simp
qed

subsection \<open>The FAIL case and the exit status\<close>

text \<open>
  C6. A visible "Choose Background" element is not fatal: when the other calls succeed,
  \<open>run\<close> prints the FAIL line and then "Screenshot saved.", writes the screenshot,
  returns normally, and the process exits with status 0. For any run at all, the exit
  status is non-zero exactly when an exception leaves \<open>run\<close>.
\<close>

theorem run_fail_case_nonfatal:
  assumes "wait_succeeds env" and "visible_res env picker_text = Inr True"
    and "capture env False = Inr img" and "close_res env = None"
  shows "printed w (snd (run env w)) = [fail_line, saved_line] \<and>
         files (snd (run env w)) = (files w)(shot_path \<mapsto> img) \<and>
         fst (run env w) = Inr () \<and>
         fst (script env w) = 0 \<and>
         (fst (script env' w') \<noteq> 0) = isl (fst (run env' w'))"
  by (simp add: run_past_wait [OF assms(1,2)] assms(3,4) printed_def script_def
        module_body_def exit_status_def split: prod.splits sum.splits)

theorem run_fail_case_nonfatal_witness:
  "wait_succeeds (app (Some 3000) True) \<and>
   visible_res (app (Some 3000) True) picker_text = Inr True \<and>
   capture (app (Some 3000) True) False = Inr ''viewport'' \<and>
   close_res (app (Some 3000) True) = None \<and>
   printed w0 (snd (run (app (Some 3000) True) w0)) = [fail_line, saved_line] \<and>
   files (snd (run (app (Some 3000) True) w0)) = (files w0)(shot_path \<mapsto> ''viewport'') \<and>
   fst (run (app (Some 3000) True) w0) = Inr () \<and>
   fst (script (app (Some 3000) True) w0) = 0 \<and>
   (fst (script (app None True) w0) \<noteq> 0) = isl (fst (run (app None True) w0))"
proof -
  have h1: "wait_succeeds (app (Some 3000) True)"
    by (simp add: wait_succeeds_def wait_reached_def app_def)
  have h2: "visible_res (app (Some 3000) True) picker_text = Inr True"
    by (simp add: app_def)
  have h3: "capture (app (Some 3000) True) False = Inr ''viewport''"
    by (simp add: app_def)
  have h4: "close_res (app (Some 3000) True) = None"
    by (simp add: app_def)
  show ?thesis
    using h1 h2 h3 h4
      run_fail_case_nonfatal [OF h1 h2 h3 h4, of w0 "app None True" w0]
    by simp
qed

subsection \<open>Running twice\<close>

text \<open>
  C7. When the script runs twice in succession and both runs take the screenshot, each
  writes to \<open>verification/verification.png\<close>: after the second run the file system is
  the original one with that single path holding the second image, and the set of files
  after two runs is the set after one run.
\<close>

theorem run_twice_same_artifacts:
  assumes "wait_succeeds e1" and "visible_res e1 picker_text = Inr b1"
    and "capture e1 False = Inr img1"
    and "wait_succeeds e2" and "visible_res e2 picker_text = Inr b2"
    and "capture e2 False = Inr img2"
  shows "files (snd (run e1 w)) = (files w)(shot_path \<mapsto> img1) \<and>
         files (snd (run e2 (snd (run e1 w)))) = (files w)(shot_path \<mapsto> img2) \<and>
         dom (files (snd (run e2 (snd (run e1 w))))) = dom (files (snd (run e1 w)))"
  by (simp add: run_past_wait [OF assms(1,2)] run_past_wait [OF assms(4,5)] assms(3,6))

theorem run_twice_same_artifacts_witness:
  "wait_succeeds (app (Some 3000) False) \<and>
   visible_res (app (Some 3000) False) picker_text = Inr False \<and>
   capture (app (Some 3000) False) False = Inr ''viewport'' \<and>
   wait_succeeds (app (Some 500) True) \<and>
   visible_res (app (Some 500) True) picker_text = Inr True \<and>
   capture (app (Some 500) True) False = Inr ''viewport'' \<and>
   files (snd (run (app (Some 3000) False) w0)) = (files w0)(shot_path \<mapsto> ''viewport'') \<and>
   files (snd (run (app (Some 500) True) (snd (run (app (Some 3000) False) w0)))) =
     (files w0)(shot_path \<mapsto> ''viewport'') \<and>
   dom (files (snd (run (app (Some 500) True) (snd (run (app (Some 3000) False) w0))))) =
     dom (files (snd (run (app (Some 3000) False) w0)))"
proof -
  have h1: "wait_succeeds (app (Some 3000) False)"
    by (simp add: wait_succeeds_def wait_reached_def app_def)
  have h2: "visible_res (app (Some 3000) False) picker_text = Inr False"
    by (simp add: app_def)
  have h3: "capture (app (Some 3000) False) False = Inr ''viewport''"
    by (simp add: app_def)
  have h4: "wait_succeeds (app (Some 500) True)"
    by (simp add: wait_succeeds_def wait_reached_def app_def)
  have h5: "visible_res (app (Some 500) True) picker_text = Inr True"
    by (simp add: app_def)
  have h6: "capture (app (Some 500) True) False = Inr ''viewport''"
    by (simp add: app_def)
  show ?thesis
    using h1 h2 h3 h4 h5 h6 run_twice_same_artifacts [OF h1 h2 h3 h4 h5 h6, of w0]
    by simp
qed

subsection \<open>Importing the module\<close>

text \<open>
  C9. \<open>run()\<close> is called only under the \<open>__main__\<close> guard: when the module is loaded
  under any other name, nothing happens to the world (no browser, no file, no output)
  and nothing is raised.
\<close>

theorem import_has_no_effects:
  "name \<noteq> ''__main__'' \<Longrightarrow> module_body name env w = (Inr (), w)"
  by (simp add: module_body_def ret_def)

theorem import_has_no_effects_witness:
  "''verify_background_picker'' \<noteq> ''__main__'' \<and>
   module_body ''verify_background_picker'' (app (Some 3000) False) w0 = (Inr (), w0)"
proof -
  have h: "''verify_background_picker'' \<noteq> ''__main__''"
    by simp
  show ?thesis
    using h import_has_no_effects [OF h, of "app (Some 3000) False" w0] by simp
qed

subsection \<open>Launch options and target\<close>

text \<open>
  C8. Every run that starts a session and gets a page launches the browser exactly once,
  headless and with the two fake-media-stream flags, opens exactly one page, and
  navigates exactly once, to \<open>http://localhost:5173/\<close>. The command line has no
  influence: running with another \<open>argv\<close> gives the same result and the same world,
  \<open>argv\<close> apart.
\<close>

theorem run_launch_and_navigation_fixed:
  assumes "start_res env = None" and "launch_res env True fake_media_flags = None"
    and "new_page_res env = None"
  shows "launches (new_calls w (snd (run env w))) = [(True, fake_media_flags)] \<and>
         count_list (new_calls w (snd (run env w))) NewPage = 1 \<and>
         navigations (new_calls w (snd (run env w))) = [target_url] \<and>
         run env (w\<lparr>argv := a\<rparr>) = (fst (run env w), (snd (run env w))\<lparr>argv := a\<rparr>)"
proof -
  have log: "launches (new_calls w (snd (run env w))) = [(True, fake_media_flags)] \<and>
         count_list (new_calls w (snd (run env w))) NewPage = 1 \<and>
         navigations (new_calls w (snd (run env w))) = [target_url]"
  proof (cases "goto_res env target_url")
    case (Some e)
    show ?thesis
      by (simp add: run_goto_fails [OF assms Some] new_calls_def)
  next
    case None
    with assms have reached: "wait_reached env"
      by (simp add: wait_reached_def)
    show ?thesis
    proof (cases "enabled_within env start_btn 20000")
      case False
      show ?thesis
        by (simp add: run_wait_fails [OF reached False] new_calls_def)
    next
      case True
      with reached have ok: "wait_succeeds env"
        by (simp add: wait_succeeds_def)
      show ?thesis
      proof (cases "visible_res env picker_text")
        case (Inl e)
        show ?thesis
          by (simp add: run_visible_raises [OF ok Inl] new_calls_def)
      next
        case (Inr b)
        show ?thesis
          by (simp add: run_past_wait [OF ok Inr] new_calls_def split: sum.splits)
      qed
    qed
  qed
  show ?thesis
    using log by (simp add: run_argv)
qed

theorem run_launch_and_navigation_fixed_witness:
  "start_res (app None False) = None \<and>
   launch_res (app None False) True fake_media_flags = None \<and>
   new_page_res (app None False) = None \<and>
   launches (new_calls w0 (snd (run (app None False) w0))) = [(True, fake_media_flags)] \<and>
   count_list (new_calls w0 (snd (run (app None False) w0))) NewPage = 1 \<and>
   navigations (new_calls w0 (snd (run (app None False) w0))) = [target_url] \<and>
   run (app None False) (w0\<lparr>argv := [''verify_background_picker.py'', ''--headed'']\<rparr>) =
     (fst (run (app None False) w0),
      (snd (run (app None False) w0))\<lparr>argv := [''verify_background_picker.py'', ''--headed'']\<rparr>)"
proof -
  have h1: "start_res (app None False) = None"
    by (simp add: app_def)
  have h2: "launch_res (app None False) True fake_media_flags = None"
    by (simp add: app_def)
  have h3: "new_page_res (app None False) = None"
    by (simp add: app_def)
  show ?thesis
    using h1 h2 h3
      run_launch_and_navigation_fixed [OF h1 h2 h3, of w0
        "[''verify_background_picker.py'', ''--headed'']"]
    by simp
qed

subsection \<open>Determinism\<close>

text \<open>
  C10. Two executions in which the browser-automation calls have the same outcomes (the
  same calls return or raise, the readiness wait ends the same way, \<open>is_visible()\<close>
  gives the same answer) print the same lines in the same order and make the same
  library calls with the same arguments, so the screenshot is requested at the same
  path. The executions may start from different worlds and capture different images.
\<close>

theorem run_deterministic:
  assumes start: "start_res e1 = start_res e2"
    and launch: "launch_res e1 True fake_media_flags = launch_res e2 True fake_media_flags"
    and page: "new_page_res e1 = new_page_res e2"
    and nav: "goto_res e1 target_url = goto_res e2 target_url"
    and ready: "enabled_within e1 start_btn 20000 = enabled_within e2 start_btn 20000"
    and vis: "visible_res e1 picker_text = visible_res e2 picker_text"
    and shot: "isl (capture e1 False) = isl (capture e2 False)"
    and closing: "close_res e1 = close_res e2"
  shows "printed w1 (snd (run e1 w1)) = printed w2 (snd (run e2 w2)) \<and>
         new_calls w1 (snd (run e1 w1)) = new_calls w2 (snd (run e2 w2))"
proof (cases "start_res e2")
  case (Some e)
  with start have "start_res e1 = Some e"
    by simp
  with Some show ?thesis
    by (simp add: run_start_fails new_calls_def printed_def)
next
  case s2: None
  with start have s1: "start_res e1 = None"
    by simp
  show ?thesis
  proof (cases "launch_res e2 True fake_media_flags")
    case (Some e)
    with launch have "launch_res e1 True fake_media_flags = Some e"
      by simp
    with Some s1 s2 show ?thesis
      by (simp add: run_launch_fails new_calls_def printed_def)
  next
    case l2: None
    with launch have l1: "launch_res e1 True fake_media_flags = None"
      by simp
    show ?thesis
    proof (cases "new_page_res e2")
      case (Some e)
      with page have "new_page_res e1 = Some e"
        by simp
      with Some s1 s2 l1 l2 show ?thesis
        by (simp add: run_new_page_fails new_calls_def printed_def)
    next
      case p2: None
      with page have p1: "new_page_res e1 = None"
        by simp
      show ?thesis
      proof (cases "goto_res e2 target_url")
        case (Some e)
        with nav have "goto_res e1 target_url = Some e"
          by simp
        with Some s1 s2 l1 l2 p1 p2 show ?thesis
          by (simp add: run_goto_fails new_calls_def printed_def)
      next
        case g2: None
        with nav have g1: "goto_res e1 target_url = None"
          by simp
        from s1 l1 p1 g1 have r1: "wait_reached e1"
          by (simp add: wait_reached_def)
        from s2 l2 p2 g2 have r2: "wait_reached e2"
          by (simp add: wait_reached_def)
        show ?thesis
        proof (cases "enabled_within e2 start_btn 20000")
          case False
          with ready have "\<not> enabled_within e1 start_btn 20000"
            by simp
          with False r1 r2 show ?thesis
            by (simp add: run_wait_fails new_calls_def printed_def)
        next
          case True
          with ready r1 r2 have ok1: "wait_succeeds e1" and ok2: "wait_succeeds e2"
            by (simp_all add: wait_succeeds_def)
          show ?thesis
          proof (cases "visible_res e2 picker_text")
            case (Inl e)
            with vis have "visible_res e1 picker_text = Inl e"
              by simp
            with Inl ok1 ok2 show ?thesis
              by (simp add: run_visible_raises new_calls_def printed_def)
          next
            case (Inr b)
            with vis have v1: "visible_res e1 picker_text = Inr b"
              by simp
            from shot show ?thesis
              by (cases "capture e1 False"; cases "capture e2 False")
                 (simp_all add: run_past_wait [OF ok1 v1] run_past_wait [OF ok2 Inr]
                    new_calls_def printed_def)
          qed
        qed
      qed
    qed
  qed
qed

theorem run_deterministic_witness:
  "start_res (app (Some 3000) True) = start_res (app (Some 100) True\<lparr>capture := \<lambda>fp. Inr ''other''\<rparr>) \<and>
   launch_res (app (Some 3000) True) True fake_media_flags =
     launch_res (app (Some 100) True\<lparr>capture := \<lambda>fp. Inr ''other''\<rparr>) True fake_media_flags \<and>
   new_page_res (app (Some 3000) True) =
     new_page_res (app (Some 100) True\<lparr>capture := \<lambda>fp. Inr ''other''\<rparr>) \<and>
   goto_res (app (Some 3000) True) target_url =
     goto_res (app (Some 100) True\<lparr>capture := \<lambda>fp. Inr ''other''\<rparr>) target_url \<and>
   enabled_within (app (Some 3000) True) start_btn 20000 =
     enabled_within (app (Some 100) True\<lparr>capture := \<lambda>fp. Inr ''other''\<rparr>) start_btn 20000 \<and>
   visible_res (app (Some 3000) True) picker_text =
     visible_res (app (Some 100) True\<lparr>capture := \<lambda>fp. Inr ''other''\<rparr>) picker_text \<and>
   isl (capture (app (Some 3000) True) False) =
     isl (capture (app (Some 100) True\<lparr>capture := \<lambda>fp. Inr ''other''\<rparr>) False) \<and>
   close_res (app (Some 3000) True) =
     close_res (app (Some 100) True\<lparr>capture := \<lambda>fp. Inr ''other''\<rparr>) \<and>
   printed w0 (snd (run (app (Some 3000) True) w0)) =
     printed (w0\<lparr>stdout := [''earlier output'']\<rparr>)
       (snd (run (app (Some 100) True\<lparr>capture := \<lambda>fp. Inr ''other''\<rparr>)
          (w0\<lparr>stdout := [''earlier output'']\<rparr>))) \<and>
   new_calls w0 (snd (run (app (Some 3000) True) w0)) =
     new_calls (w0\<lparr>stdout := [''earlier output'']\<rparr>)
       (snd (run (app (Some 100) True\<lparr>capture := \<lambda>fp. Inr ''other''\<rparr>)
          (w0\<lparr>stdout := [''earlier output'']\<rparr>)))"
proof -
  let ?e1 = "app (Some 3000) True"
  let ?e2 = "app (Some 100) True\<lparr>capture := \<lambda>fp. Inr ''other''\<rparr>"
  have h1: "start_res ?e1 = start_res ?e2"
    by (simp add: app_def)
  have h2: "launch_res ?e1 True fake_media_flags = launch_res ?e2 True fake_media_flags"
    by (simp add: app_def)
  have h3: "new_page_res ?e1 = new_page_res ?e2"
    by (simp add: app_def)
  have h4: "goto_res ?e1 target_url = goto_res ?e2 target_url"
    by (simp add: app_def)
  have h5: "enabled_within ?e1 start_btn 20000 = enabled_within ?e2 start_btn 20000"
    by (simp add: app_def)
  have h6: "visible_res ?e1 picker_text = visible_res ?e2 picker_text"
    by (simp add: app_def)
  have h7: "isl (capture ?e1 False) = isl (capture ?e2 False)"
    by (simp add: app_def)
  have h8: "close_res ?e1 = close_res ?e2"
    by (simp add: app_def)
  show ?thesis
    using h1 h2 h3 h4 h5 h6 h7 h8
      run_deterministic [OF h1 h2 h3 h4 h5 h6 h7 h8, of w0 "w0\<lparr>stdout := [''earlier output'']\<rparr>"]
    by simp
qed

end
